theory Spec2Isabelle
  imports Complex_Main "HOL-Library.Sublist"
begin

section \<open>Python values\<close>

text \<open>
  A Python \<^verbatim>\<open>str\<close> is a sequence of Unicode code points, so \<^verbatim>\<open>len\<close>, slicing and
  \<^verbatim>\<open>in\<close> count code points. The scripts' Chinese literals are written as code point
  lists; \<open>ascii\<close> embeds an ASCII literal. Times are Python floats; they are modelled as
  real numbers, so rounding of the float arithmetic is not part of the model.
\<close>

type_synonym pystr = "nat list"

definition ascii :: "string \<Rightarrow> pystr" where
  "ascii s = map of_char s"

text \<open>\<^verbatim>\<open>sep.join(xs)\<close>.\<close>

fun join :: "pystr \<Rightarrow> pystr list \<Rightarrow> pystr" where
  "join sep [] = []"
| "join sep [x] = x"
| "join sep (x # y # ys) = x @ sep @ join sep (y # ys)"

text \<open>\<^verbatim>\<open>str(n)\<close> for a non-negative integer: its decimal digits.\<close>

fun str_nat :: "nat \<Rightarrow> pystr" where
  "str_nat n = (if n < 10 then [48 + n] else str_nat (n div 10) @ [48 + n mod 10])"

declare str_nat.simps [simp del]

text \<open>
  The exceptions the scripts can meet, by class, each with its \<^verbatim>\<open>str(e)\<close>.
  \<open>Timeout\<close> is \<^verbatim>\<open>requests.exceptions.Timeout\<close> and \<open>RequestException\<close> every other
  \<^verbatim>\<open>requests.exceptions.RequestException\<close>; every class here derives from
  \<^verbatim>\<open>Exception\<close>.
\<close>

datatype exn =
    Timeout pystr
  | RequestException pystr
  | FileNotFoundError pystr
  | ZeroDivisionError pystr
  | TypeError pystr
  | KeyError pystr
  | IndexError pystr
  | AttributeError pystr
  | ValueError pystr
  | OSError pystr
  | Exception pystr

fun str_exn :: "exn \<Rightarrow> pystr" where
  "str_exn (Timeout m) = m"
| "str_exn (RequestException m) = m"
| "str_exn (FileNotFoundError m) = m"
| "str_exn (ZeroDivisionError m) = m"
| "str_exn (TypeError m) = m"
| "str_exn (KeyError m) = m"
| "str_exn (IndexError m) = m"
| "str_exn (AttributeError m) = m"
| "str_exn (ValueError m) = m"
| "str_exn (OSError m) = m"
| "str_exn (Exception m) = m"

text \<open>Sequencing of steps that may raise: the first exception ends the block.\<close>

definition then_do :: "exn + 'a \<Rightarrow> ('a \<Rightarrow> exn + 'b) \<Rightarrow> exn + 'b" where
  "then_do m f = (case m of Inl e \<Rightarrow> Inl e | Inr v \<Rightarrow> f v)"

text \<open>What \<^verbatim>\<open>response.json()\<close> returns: a parsed JSON document.\<close>

datatype json =
    JNull
  | JBool bool
  | JNum real
  | JStr pystr
  | JArr "json list"
  | JObj "(pystr \<times> json) list"

text \<open>Truth value of a parsed JSON value (\<^verbatim>\<open>if v:\<close>).\<close>

fun py_truthy :: "json \<Rightarrow> bool" where
  "py_truthy JNull = False"
| "py_truthy (JBool b) = b"
| "py_truthy (JNum x) = (x \<noteq> 0)"
| "py_truthy (JStr s) = (s \<noteq> [])"
| "py_truthy (JArr xs) = (xs \<noteq> [])"
| "py_truthy (JObj kvs) = (kvs \<noteq> [])"

text \<open>\<^verbatim>\<open>len(v)\<close>: numbers, booleans and \<^verbatim>\<open>None\<close> have no length.\<close>

fun py_len :: "json \<Rightarrow> exn + nat" where
  "py_len (JStr s) = Inr (length s)"
| "py_len (JArr xs) = Inr (length xs)"
| "py_len (JObj kvs) = Inr (length kvs)"
| "py_len v = Inl (TypeError (ascii ''object has no len()''))"

section \<open>The result sink\<close>

text \<open>
  One entry of \<^verbatim>\<open>result_list\<close>: the tuple
  \<^verbatim>\<open>(success, total_time, time_to_first_chunk, input_size, output_size, error_msg,
  request_id, transcribed_text)\<close>. The text is whatever value the response held at the
  place the worker read it from.
\<close>

record request_result =
  r_success :: bool
  r_total_time :: real
  r_first_chunk :: "real option"
  r_input_size :: nat
  r_output_size :: nat
  r_error_msg :: pystr
  r_request_id :: pystr
  r_text :: json

section \<open>The aggregator: the tail of \<^verbatim>\<open>run_test_even_rpm\<close>\<close>

text \<open>Float division: Python raises on a zero divisor.\<close>

definition py_div :: "real \<Rightarrow> real \<Rightarrow> exn + real" where
  "py_div a b = (if b = 0 then Inl (ZeroDivisionError (ascii ''float division by zero''))
                 else Inr (a / b))"

text \<open>\<^verbatim>\<open>sum(1 for r in test_results if r[0])\<close> and \<^verbatim>\<open>sum(r[1] for r in test_results if r[0])\<close>.\<close>

definition success_count :: "request_result list \<Rightarrow> nat" where
  "success_count test_results = length (filter r_success test_results)"

definition total_latency :: "request_result list \<Rightarrow> real" where
  "total_latency test_results = sum_list (map r_total_time (filter r_success test_results))"

text \<open>
  \<^verbatim>\<open>total_chars\<close>: for the workers of the script
  \<^verbatim>\<open>sum(len(r[7]) for r in test_results if r[0] and r[7])\<close>, for any other function
  \<^verbatim>\<open>sum(r[4] for r in test_results if r[0]) // 4\<close>.
\<close>

fun sum_len :: "request_result list \<Rightarrow> exn + nat" where
  "sum_len [] = Inr 0"
| "sum_len (r # rs) =
     (if r_success r \<and> py_truthy (r_text r)
      then then_do (py_len (r_text r)) (\<lambda>n. then_do (sum_len rs) (\<lambda>m. Inr (n + m)))
      else sum_len rs)"

definition total_chars :: "bool \<Rightarrow> request_result list \<Rightarrow> exn + nat" where
  "total_chars own_worker test_results =
     (if own_worker then sum_len test_results
      else Inr (sum_list (map r_output_size (filter r_success test_results)) div 4))"

text \<open>
  The error statistics \<^verbatim>\<open>error_stats\<close>: a dict from message to count, in insertion
  order. \<open>bump\<close> is \<^verbatim>\<open>error_stats[error_msg] = error_stats.get(error_msg, 0) + 1\<close>.
\<close>

fun bump :: "pystr \<Rightarrow> (pystr \<times> nat) list \<Rightarrow> (pystr \<times> nat) list" where
  "bump m [] = [(m, 1)]"
| "bump m ((k, c) # kvs) = (if k = m then (k, c + 1) # kvs else (k, c) # bump m kvs)"

definition failed_with_msg :: "request_result \<Rightarrow> bool" where
  "failed_with_msg result = (\<not> r_success result \<and> r_error_msg result \<noteq> [])"

definition error_stats :: "request_result list \<Rightarrow> (pystr \<times> nat) list" where
  "error_stats test_results =
     foldl (\<lambda>stats result. if failed_with_msg result then bump (r_error_msg result) stats else stats)
       [] test_results"

text \<open>
  The five keys of \<^verbatim>\<open>error_type_counts\<close> in az_asr_test.py, in the dict's order, and
  the branch that picks one for a message. \<^verbatim>\<open>str.lower\<close> is Python's; it is a
  parameter.
\<close>

datatype error_type = E429 | E400 | ETimeout | EConnection | EOther

definition error_type_of :: "(pystr \<Rightarrow> pystr) \<Rightarrow> pystr \<Rightarrow> error_type" where
  "error_type_of lower error_msg =
     (if sublist (ascii ''429'') error_msg then E429
      else if sublist (ascii ''400'') error_msg then E400
      else if sublist (ascii ''timeout'') (lower error_msg) \<or> sublist [36229, 26102] error_msg
        then ETimeout
      else if sublist (ascii ''connection'') (lower error_msg) \<or> sublist [36830, 25509] error_msg
        then EConnection
      else EOther)"

definition error_type_counts ::
  "(pystr \<Rightarrow> pystr) \<Rightarrow> (pystr \<times> nat) list \<Rightarrow> error_type \<Rightarrow> nat" where
  "error_type_counts lower stats =
     foldl (\<lambda>counts (error_msg, count).
              counts (error_type_of lower error_msg := counts (error_type_of lower error_msg) + count))
       (\<lambda>_. 0) stats"

fun error_type_name :: "error_type \<Rightarrow> pystr" where
  "error_type_name E429 = ascii ''429'' @ [38169, 35823]"
| "error_type_name E400 = ascii ''400'' @ [38169, 35823]"
| "error_type_name ETimeout = [36229, 26102, 38169, 35823]"
| "error_type_name EConnection = [36830, 25509, 38169, 35823]"
| "error_type_name EOther = [20854, 20182, 38169, 35823]"

text \<open>
  The cell written to the CSV by az_asr_test.py: one entry \<^verbatim>\<open>"{error_type}:{count}\<close>
  followed by the character for "times", for every key whose count is positive, or the
  literal for "no errors".
\<close>

definition asr_errors_sample :: "(pystr \<Rightarrow> pystr) \<Rightarrow> request_result list \<Rightarrow> pystr" where
  "asr_errors_sample lower test_results =
     (let stats = error_stats test_results in
      if stats \<noteq> [] then
        (let counts = error_type_counts lower stats;
             error_summary =
               map (\<lambda>t. error_type_name t @ ascii '':'' @ str_nat (counts t) @ [27425])
                 (filter (\<lambda>t. counts t > 0) [E429, E400, ETimeout, EConnection, EOther])
         in join (ascii '' | '') (take 5 error_summary))
      else [26080, 38169, 35823])"

text \<open>
  The cell written by az_translation_test.py:
  \<^verbatim>\<open>" | ".join(list(set(r[5] for r in test_results if not r[0] and r[5]))[:5])\<close>. The
  order in which a Python set lists its elements is not fixed; \<open>set_order\<close> is that
  order, applied to the distinct messages.
\<close>

definition translation_errors_sample ::
  "(pystr list \<Rightarrow> pystr list) \<Rightarrow> request_result list \<Rightarrow> pystr" where
  "translation_errors_sample set_order test_results =
     (let error_messages = set_order (remdups (map r_error_msg (filter failed_with_msg test_results)))
      in join (ascii '' | '') (take 5 error_messages))"

datatype script = AsrScript | TranslationScript

record summary_row =
  total_results_recorded :: nat
  row_success_count :: nat
  row_error_count :: nat
  row_success_rate :: real
  row_total_chars :: nat
  avg_request_duration :: real
  actual_rpm :: real
  errors_sample :: pystr

text \<open>
  \<^verbatim>\<open>run_test_even_rpm\<close> from "calculate test results" on, once the dispatcher and the
  workers are done: \<open>None\<close> is the early \<^verbatim>\<open>return None\<close> after printing that no result
  was recorded. The cells are the numbers before they are formatted; the time stamp, the
  test name and the configuration cells are left out.
\<close>

definition run_summary ::
  "script \<Rightarrow> (pystr \<Rightarrow> pystr) \<Rightarrow> (pystr list \<Rightarrow> pystr list) \<Rightarrow> bool \<Rightarrow>
   request_result list \<Rightarrow> real \<Rightarrow> exn + summary_row option" where
  "run_summary script lower set_order own_worker test_results actual_duration =
     (let total = length test_results in
      if total = 0 then Inr None
      else
        (let succ = success_count test_results;
             error_count = total - succ;
             latency = total_latency test_results in
         then_do (if succ > 0 then py_div latency (real succ) else Inr 0) (\<lambda>avg_latency.
         then_do (if total > 0 then then_do (py_div (real succ) (real total)) (\<lambda>q. Inr (q * 100))
                  else Inr 0) (\<lambda>success_rate.
         then_do (py_div (real succ) (max actual_duration 0.001)) (\<lambda>q.
         then_do (total_chars own_worker test_results) (\<lambda>chars.
         then_do (if succ > 0 then py_div (latency * 1000) (real succ) else Inr 0) (\<lambda>avg_ms.
         Inr (Some \<lparr> total_results_recorded = total,
                     row_success_count = succ,
                     row_error_count = error_count,
                     row_success_rate = success_rate,
                     row_total_chars = chars,
                     avg_request_duration = avg_ms,
                     actual_rpm = q * 60,
                     errors_sample =
                       (case script of
                          AsrScript \<Rightarrow> asr_errors_sample lower test_results
                        | TranslationScript \<Rightarrow> translation_errors_sample set_order test_results) \<rparr>))))))))"

section \<open>The dispatcher of \<^verbatim>\<open>run_test_even_rpm\<close>\<close>

text \<open>\<^verbatim>\<open>int(x)\<close> on a float truncates towards zero.\<close>

definition py_int :: "real \<Rightarrow> int" where
  "py_int x = (if 0 \<le> x then \<lfloor>x\<rfloor> else \<lceil>x\<rceil>)"

text \<open>
  The variables of \<^verbatim>\<open>dispatcher\<close>: the logical request index \<^verbatim>\<open>request_id\<close>, the next
  planned time \<^verbatim>\<open>next_time\<close>, the stop event, and the numbers of the
  \<^verbatim>\<open>Request-{request_id}\<close> threads it has started, in the order of their start.
\<close>

record dispatcher_state =
  d_request_id :: int
  d_next_time :: real
  d_started :: "int list"
  d_stop_event :: bool

text \<open>
  The body of \<^verbatim>\<open>if current_time >= next_time:\<close> in one round of the loop, with the
  time read at the head of the round.
\<close>

definition fire :: "real \<Rightarrow> real \<Rightarrow> dispatcher_state \<Rightarrow> dispatcher_state" where
  "fire request_interval current_time s =
     (if current_time \<ge> d_next_time s then
        (let s1 = s\<lparr> d_started := d_started s @ [d_request_id s] \<rparr>;
             s2 = s1\<lparr> d_next_time := d_next_time s1 + request_interval \<rparr>;
             s3 = s2\<lparr> d_request_id := d_request_id s2 + 1 \<rparr>
         in if current_time > d_next_time s3 then
              (let skips = py_int ((current_time - d_next_time s3) / request_interval)
               in if skips > 0
                  then s3\<lparr> d_next_time := d_next_time s3 + real_of_int skips * request_interval,
                           d_request_id := d_request_id s3 + skips \<rparr>
                  else s3)
            else s3)
      else s)"

text \<open>
  The loop, over the successive readings of \<^verbatim>\<open>time.time()\<close> at the head of its rounds.
  The progress print, the pruning of finished threads and the sleep change none of the
  variables above.
\<close>

fun dispatcher :: "real \<Rightarrow> real \<Rightarrow> real \<Rightarrow> real list \<Rightarrow> dispatcher_state \<Rightarrow> dispatcher_state" where
  "dispatcher start_run_time test_duration_seconds request_interval [] s = s"
| "dispatcher start_run_time test_duration_seconds request_interval (current_time # clock) s =
     (if d_stop_event s then s
      else if current_time - start_run_time \<ge> test_duration_seconds then s\<lparr> d_stop_event := True \<rparr>
      else dispatcher start_run_time test_duration_seconds request_interval clock
             (fire request_interval current_time s))"

definition dispatcher_init :: "real \<Rightarrow> dispatcher_state" where
  "dispatcher_init t0 = \<lparr> d_request_id = 0, d_next_time = t0, d_started = [], d_stop_event = False \<rparr>"

section \<open>The credential cache: \<^verbatim>\<open>AzureKeyManager\<close> and \<^verbatim>\<open>AzureTranslationKeyManager\<close>\<close>

text \<open>
  The payload \<^verbatim>\<open>data\<close> of the collaborator's \<^verbatim>\<open>keys/get\<close> reply: the JSON object
  \<^verbatim>\<open>{key, region}\<close> of its interface, with string fields. It is modelled as a record, so
  \<^verbatim>\<open>key_data['key']\<close> and \<^verbatim>\<open>key_data.get('key', '')\<close> always find their field.
\<close>

record credential =
  cred_key :: pystr
  cred_region :: pystr

text \<open>
  The reply of \<^verbatim>\<open>keys/get\<close> as \<^verbatim>\<open>_update_key_periodically\<close> reads it: the truth value of
  \<^verbatim>\<open>result.get('success')\<close>, and \<^verbatim>\<open>result.get('data')\<close>, which is \<open>None\<close> when the field
  is missing, null or empty.
\<close>

record key_reply =
  reply_success :: bool
  reply_data :: "credential option"

text \<open>
  \<^verbatim>\<open>get_key\<close>: the parsed reply, or \<^verbatim>\<open>{'success': False, 'error': str(e)}\<close> when the HTTP
  call or the parsing raised.
\<close>

definition get_key :: "exn + key_reply \<Rightarrow> key_reply" where
  "get_key http =
     (case http of
        Inl e \<Rightarrow> \<lparr> reply_success = False, reply_data = None \<rparr>
      | Inr reply \<Rightarrow> reply)"

text \<open>
  The class variables. \<^verbatim>\<open>current_key\<close> holds a reference to a dict object, or \<^verbatim>\<open>None\<close>;
  \<open>objects\<close> is the store of the dict objects by address and \<open>fresh\<close> the next unused
  address, so that a copy and the object it was copied from are told apart.
\<close>

record key_manager =
  objects :: "nat \<Rightarrow> credential option"
  fresh :: nat
  current_key :: "nat option"
  last_update_time :: real

definition key_manager_init :: key_manager where
  "key_manager_init = \<lparr> objects = (\<lambda>_. None), fresh = 0, current_key = None, last_update_time = 0 \<rparr>"

text \<open>
  One round of the loop of \<^verbatim>\<open>_update_key_periodically\<close>, given what the HTTP call to
  \<^verbatim>\<open>keys/get\<close> did and the time read after it. The parsed payload is a new object.
\<close>

definition update_key_once :: "(exn + key_reply) \<times> real \<Rightarrow> key_manager \<Rightarrow> key_manager" where
  "update_key_once attempt km =
     (let result = get_key (fst attempt); current_time = snd attempt in
      case (reply_success result, reply_data result) of
        (True, Some data) \<Rightarrow>
          km\<lparr> objects := (objects km)(fresh km := Some data),
               current_key := Some (fresh km),
               fresh := Suc (fresh km),
               last_update_time := current_time \<rparr>
      | _ \<Rightarrow> km)"

text \<open>The loop, over the rounds it has completed so far.\<close>

definition update_key_periodically ::
  "((exn + key_reply) \<times> real) list \<Rightarrow> key_manager \<Rightarrow> key_manager" where
  "update_key_periodically attempts km = foldl (\<lambda>k attempt. update_key_once attempt k) km attempts"

text \<open>The credential the slot refers to.\<close>

definition stored :: "key_manager \<Rightarrow> credential option" where
  "stored km = (case current_key km of None \<Rightarrow> None | Some a \<Rightarrow> objects km a)"

text \<open>
  \<^verbatim>\<open>get_azure_key_with_retry\<close>. What it does with the class lock and the clock is recorded
  as a trace: \<open>CopyOut a b\<close> is \<^verbatim>\<open>key_data = cls.current_key.copy()\<close>, from the object at
  \<open>a\<close> into a new object at \<open>b\<close>. The \<^verbatim>\<open>time.sleep(1)\<close> of an attempt that found the
  slot empty stands inside the \<^verbatim>\<open>with cls._lock\<close> block, and is skipped after the last
  attempt. The refresher thread can change the slot only while the lock is free:
  \<open>others attempt\<close> are the rounds it completes before that attempt takes the lock. With
  string fields nothing in the \<^verbatim>\<open>try\<close> block raises, so the \<^verbatim>\<open>except\<close> branch is not
  modelled.
\<close>

datatype lock_event = Acquire | Release | Sleep real | CopyOut nat nat

definition empty_attempt :: "int \<Rightarrow> nat \<Rightarrow> lock_event list" where
  "empty_attempt max_retries attempt =
     [Acquire] @ (if int attempt < max_retries - 1 then [Sleep 1] else []) @ [Release]"

fun attempts_loop ::
  "(nat \<Rightarrow> ((exn + key_reply) \<times> real) list) \<Rightarrow> int \<Rightarrow> nat list \<Rightarrow> key_manager \<Rightarrow>
   lock_event list \<Rightarrow> nat option \<times> key_manager \<times> lock_event list" where
  "attempts_loop others max_retries [] km trace = (None, km, trace)"
| "attempts_loop others max_retries (attempt # rest) km trace =
     (let km1 = update_key_periodically (others attempt) km in
      case current_key km1 of
        Some a \<Rightarrow>
          (Some (fresh km1),
           km1\<lparr> objects := (objects km1)(fresh km1 := objects km1 a), fresh := Suc (fresh km1) \<rparr>,
           trace @ [Acquire, CopyOut a (fresh km1), Release])
      | None \<Rightarrow> attempts_loop others max_retries rest km1 (trace @ empty_attempt max_retries attempt))"

definition get_azure_key_with_retry ::
  "(nat \<Rightarrow> ((exn + key_reply) \<times> real) list) \<Rightarrow> int \<Rightarrow> key_manager \<Rightarrow>
   nat option \<times> key_manager \<times> lock_event list" where
  "get_azure_key_with_retry others max_retries km =
     attempts_loop others max_retries [0..<nat max_retries] km []"

section \<open>Reading a parsed response\<close>

text \<open>
  The operations the workers apply to a parsed body, with the exception Python raises
  where the value has the wrong type. A \<open>JObj\<close> lists the items of the dict (each key
  once). \<open>py_get\<close> is \<^verbatim>\<open>v.get(k, d)\<close>: only a dict has the method.
\<close>

fun py_get :: "json \<Rightarrow> pystr \<Rightarrow> json \<Rightarrow> exn + json" where
  "py_get (JObj kvs) k d = Inr (case map_of kvs k of None \<Rightarrow> d | Some v \<Rightarrow> v)"
| "py_get v k d = Inl (AttributeError (ascii ''object has no attribute get''))"

text \<open>
  \<^verbatim>\<open>k in v\<close> for a string \<open>k\<close>: a key of a dict, an element of a list, a substring of a
  string; the other values are not iterable.
\<close>

fun py_contains :: "pystr \<Rightarrow> json \<Rightarrow> exn + bool" where
  "py_contains k (JObj kvs) = Inr (k \<in> set (map fst kvs))"
| "py_contains k (JArr xs) = Inr (JStr k \<in> set xs)"
| "py_contains k (JStr s) = Inr (sublist k s)"
| "py_contains k v = Inl (TypeError (ascii ''argument is not iterable''))"

text \<open>\<^verbatim>\<open>v[k]\<close> for a string \<open>k\<close>: the value of a dict's key; every other value raises.\<close>

fun py_getitem :: "json \<Rightarrow> pystr \<Rightarrow> exn + json" where
  "py_getitem (JObj kvs) k = (case map_of kvs k of None \<Rightarrow> Inl (KeyError k) | Some v \<Rightarrow> Inr v)"
| "py_getitem v k = Inl (TypeError (ascii ''indices must be integers, or object is not subscriptable''))"

text \<open>
  \<^verbatim>\<open>v[0]\<close>: the first element of a list or the first character of a string; a dict of a
  parsed body has no key \<open>0\<close>.
\<close>

fun py_getitem0 :: "json \<Rightarrow> exn + json" where
  "py_getitem0 (JArr []) = Inl (IndexError (ascii ''list index out of range''))"
| "py_getitem0 (JArr (x # xs)) = Inr x"
| "py_getitem0 (JStr []) = Inl (IndexError (ascii ''string index out of range''))"
| "py_getitem0 (JStr (c # s)) = Inr (JStr [c])"
| "py_getitem0 (JObj kvs) = Inl (KeyError (ascii ''0''))"
| "py_getitem0 v = Inl (TypeError (ascii ''object is not subscriptable''))"

text \<open>
  The pattern \<^verbatim>\<open>xs and len(xs) > 0 and field in xs[0]\<close> followed by
  \<^verbatim>\<open>xs[0][field]\<close> when it holds: \<open>Some\<close> of the value read, \<open>None\<close> when the
  condition is false, or the exception one of its steps raised.
\<close>

definition first_field :: "pystr \<Rightarrow> json \<Rightarrow> exn + json option" where
  "first_field field xs =
     (if \<not> py_truthy xs then Inr None
      else then_do (py_len xs) (\<lambda>n.
        if \<not> n > 0 then Inr None
        else then_do (py_getitem0 xs) (\<lambda>x0.
          then_do (py_contains field x0) (\<lambda>has.
            if \<not> has then Inr None
            else then_do (py_getitem x0 field) (\<lambda>v. Inr (Some v))))))"

section \<open>The workers\<close>

text \<open>
  What the worker reads from the \<^verbatim>\<open>requests\<close> response: \<^verbatim>\<open>status_code\<close>,
  \<^verbatim>\<open>text\<close>, \<^verbatim>\<open>len(response.content)\<close>, and what \<^verbatim>\<open>response.json()\<close> returns or
  raises (a \<open>RequestException\<close> in the versions of the library whose decoding error is
  one, a \<open>ValueError\<close> in the older ones).
\<close>

record http_response =
  resp_status_code :: nat
  resp_text :: pystr
  resp_content_length :: nat
  resp_json :: "exn + json"

text \<open>
  Library functions whose result is text only: \<^verbatim>\<open>traceback.format_exc()\<close> while the
  given exception is handled, \<^verbatim>\<open>json.dumps\<close>, and the formatting of a parsed value in
  an f-string.
\<close>

record pylib =
  format_exc :: "exn \<Rightarrow> pystr"
  json_dumps :: "json \<Rightarrow> pystr"
  format_value :: "json \<Rightarrow> pystr"

text \<open>
  What a worker can change: the class variables of the key manager, the trace of its
  lock, the requests sent to the target service (subscription key, region, request id),
  the requests sent to the collaborator's \<^verbatim>\<open>keys/status\<close> endpoint (key, code, note), and
  the shared \<^verbatim>\<open>result_list\<close>.
\<close>

record world =
  manager :: key_manager
  lock_trace :: "lock_event list"
  target_posts :: "(pystr \<times> pystr \<times> pystr) list"
  status_posts :: "(pystr \<times> nat \<times> pystr) list"
  result_list :: "request_result list"

text \<open>
  What one invocation meets: its \<^verbatim>\<open>thread_id\<close>, the \<^verbatim>\<open>uuid4\<close> drawn, the audio file
  name and whether \<^verbatim>\<open>os.path.exists\<close> and \<^verbatim>\<open>os.path.isfile\<close> hold for it, what opening
  and reading the file gives (the number of bytes) or raises, the length of the serialised
  translation request, the refresher's rounds around each attempt to get the key, what
  \<^verbatim>\<open>requests.post\<close> to the target service returns or raises, what the call to
  \<^verbatim>\<open>keys/status\<close> returns (the truth value of the reply's \<^verbatim>\<open>success\<close>) or raises, and
  the two readings of the clock.
\<close>

record env =
  e_thread_id :: pystr
  e_uuid4 :: pystr
  e_audio_file :: pystr
  e_file_ok :: bool
  e_audio :: "exn + nat"
  e_request_len :: nat
  e_others :: "nat \<Rightarrow> ((exn + key_reply) \<times> real) list"
  e_post :: "exn + http_response"
  e_status_api :: "pystr \<times> nat \<times> pystr \<Rightarrow> exn + bool"
  e_start_time :: real
  e_end_time :: real

text \<open>The local variables of a worker that its \<^verbatim>\<open>except\<close> and \<^verbatim>\<open>finally\<close> blocks read.\<close>

record locals =
  success :: bool
  error_msg :: pystr
  input_size :: nat
  output_size :: nat
  response :: "http_response option"
  transcribed_text :: json
  azure_key_info :: "credential option"

text \<open>
  \<^verbatim>\<open>report_status\<close> posts to \<^verbatim>\<open>keys/status\<close> and returns the reply, or a failure reply
  when the call raised. \<^verbatim>\<open>report_key_status_safe\<close> returns at once, without a call, when
  the code is 200.
\<close>

definition report_status ::
  "(pystr \<times> nat \<times> pystr \<Rightarrow> exn + bool) \<Rightarrow> pystr \<Rightarrow> nat \<Rightarrow> pystr \<Rightarrow> world \<Rightarrow> bool \<times> world" where
  "report_status api key status_code note w =
     (let w' = w\<lparr> status_posts := status_posts w @ [(key, status_code, note)] \<rparr> in
      case api (key, status_code, note) of
        Inl e \<Rightarrow> (False, w')
      | Inr ok \<Rightarrow> (ok, w'))"

definition report_key_status_safe ::
  "(pystr \<times> nat \<times> pystr \<Rightarrow> exn + bool) \<Rightarrow> pystr \<Rightarrow> nat \<Rightarrow> pystr \<Rightarrow> world \<Rightarrow> bool \<times> world" where
  "report_key_status_safe api key status_code note w =
     (if status_code = 200 then (True, w) else report_status api key status_code note w)"

text \<open>
  The four request functions, \<^verbatim>\<open>test_asr_short_audio_api\<close> and
  \<^verbatim>\<open>test_transcription_api\<close> of az_asr_test.py, \<^verbatim>\<open>test_text_translation_api\<close> and
  \<^verbatim>\<open>test_speech_translation_api\<close> of az_translation_test.py, share one skeleton. They
  differ in the prefix of the request id, in whether they check and read the audio file
  (and have an \<^verbatim>\<open>except FileNotFoundError\<close> clause), in two message texts and in how
  they read a 2xx body.
\<close>

datatype worker_kind = AsrShortAudio | Transcription | TextTranslation | SpeechTranslation

fun id_prefix :: "worker_kind \<Rightarrow> pystr" where
  "id_prefix AsrShortAudio = ascii ''ASR-''"
| "id_prefix Transcription = ascii ''Transcription-''"
| "id_prefix TextTranslation = ascii ''TextTranslation-''"
| "id_prefix SpeechTranslation = ascii ''SpeechTranslation-''"

fun reads_file :: "worker_kind \<Rightarrow> bool" where
  "reads_file AsrShortAudio = True"
| "reads_file Transcription = True"
| "reads_file TextTranslation = False"
| "reads_file SpeechTranslation = False"

fun missing_file_msg :: "worker_kind \<Rightarrow> pystr" where
  "missing_file_msg AsrShortAudio = ascii ''ASR'' @ [38899, 39057, 25991, 20214, 26410, 25214, 21040] @ ascii '': ''"
| "missing_file_msg k = [38899, 39057, 25991, 20214, 26410, 25214, 21040] @ ascii '': ''"

fun no_key_msg :: "worker_kind \<Rightarrow> pystr" where
  "no_key_msg AsrShortAudio = [26080, 27861, 33719, 21462, 21487, 29992, 30340] @ ascii ''Azure'' @ [23494, 38053]"
| "no_key_msg Transcription = [26080, 27861, 33719, 21462, 21487, 29992, 30340] @ ascii ''Azure'' @ [23494, 38053]"
| "no_key_msg k = [26080, 27861, 33719, 21462, 21487, 29992, 30340] @ ascii ''Azure'' @ [32763, 35793, 23494, 38053]"

text \<open>The end \<^verbatim>\<open>" (ID: {request_id})"\<close> of the error messages.\<close>

definition id_suffix :: "pystr \<Rightarrow> pystr" where
  "id_suffix request_id = ascii '' (ID: '' @ request_id @ ascii '')''"

text \<open>
  The 2xx branch of each worker after \<^verbatim>\<open>result_data = response.json()\<close> and
  \<^verbatim>\<open>output_size = len(response.content)\<close>: the exception raised, if any, the local
  variables as they are then, and the note of the call
  \<^verbatim>\<open>report_key_status_safe(azure_key, 200, note)\<close> that ends the path, if it has one
  (every such call in the four workers passes the literal 200).
\<close>

definition asr_body :: "pylib \<Rightarrow> pystr \<Rightarrow> json \<Rightarrow> locals \<Rightarrow> exn option \<times> locals \<times> pystr option" where
  "asr_body py request_id result_data l =
     (case py_get result_data (ascii ''RecognitionStatus'') (JStr (ascii ''Unknown'')) of
        Inl ex \<Rightarrow> (Some ex, l, None)
      | Inr recognition_status \<Rightarrow>
          if recognition_status = JStr (ascii ''Success'') then
            (case py_get result_data (ascii ''DisplayText'')
                    (JStr [26410, 25214, 21040, 35782, 21035, 25991, 26412]) of
               Inl ex \<Rightarrow> (Some ex, l\<lparr> success := True \<rparr>, None)
             | Inr display_text \<Rightarrow>
                 (None, l\<lparr> success := True, transcribed_text := display_text \<rparr>,
                  Some (ascii ''ASR success'')))
          else if recognition_status = JStr (ascii ''NoMatch'') then
            (None,
             l\<lparr> success := False,
                error_msg := ascii ''ASR'' @ [26080, 21305, 37197] @ ascii '': ''
                  @ [26410, 33021, 35782, 21035, 35821, 38899, 20869, 23481] @ id_suffix request_id \<rparr>,
             Some (ascii ''ASR no match''))
          else
            (None,
             l\<lparr> success := False,
                error_msg := ascii ''ASR'' @ [38750, 25104, 21151, 29366, 24577] @ ascii '': ''
                  @ format_value py recognition_status @ id_suffix request_id \<rparr>,
             Some (ascii ''ASR recognition failed: '' @ format_value py recognition_status)))"

text \<open>The note \<^verbatim>\<open>f"... format error: {error_msg[:100]}"\<close>.\<close>

definition format_error_note :: "pystr \<Rightarrow> locals \<Rightarrow> pystr option" where
  "format_error_note label l = Some (label @ take 100 (error_msg l))"

text \<open>
  \<^verbatim>\<open>'results' in result_data and 'channels' in result_data['results']\<close>, then
  \<^verbatim>\<open>result_data['results']['channels']\<close> and \<^verbatim>\<open>result_data['combinedPhrases']\<close> read
  with the pattern of \<open>first_field\<close>.
\<close>

definition has_channels :: "json \<Rightarrow> exn + bool" where
  "has_channels result_data =
     then_do (py_contains (ascii ''results'') result_data) (\<lambda>has.
       if \<not> has then Inr False
       else then_do (py_getitem result_data (ascii ''results'')) (\<lambda>results.
              py_contains (ascii ''channels'') results))"

definition channel_lexical :: "json \<Rightarrow> exn + json option" where
  "channel_lexical result_data =
     then_do (py_getitem result_data (ascii ''results'')) (\<lambda>results.
       then_do (py_getitem results (ascii ''channels'')) (\<lambda>channel_results.
         first_field (ascii ''lexical'') channel_results))"

definition phrase_text :: "json \<Rightarrow> exn + json option" where
  "phrase_text result_data =
     then_do (py_getitem result_data (ascii ''combinedPhrases'')) (\<lambda>combined_phrases.
       first_field (ascii ''text'') combined_phrases)"

definition transcription_body ::
  "pylib \<Rightarrow> pystr \<Rightarrow> json \<Rightarrow> locals \<Rightarrow> exn option \<times> locals \<times> pystr option" where
  "transcription_body py request_id result_data l =
     (let finish = (\<lambda>l'. (None, l',
            if success l' then Some (ascii ''Transcription success'')
            else format_error_note (ascii ''Transcription format error: '') l'));
          bad_format = [36716, 24405, 21709, 24212, 26684, 24335, 24322, 24120];
          not_found = [26410, 25214, 21040, 25991, 26412, 20869, 23481]
      in
      case has_channels result_data of
        Inl ex \<Rightarrow> (Some ex, l, None)
      | Inr True \<Rightarrow>
          (let l1 = l\<lparr> success := True \<rparr> in
           case channel_lexical result_data of
             Inl ex \<Rightarrow> (Some ex, l1, None)
           | Inr (Some lexical) \<Rightarrow> finish (l1\<lparr> transcribed_text := lexical \<rparr>)
           | Inr None \<Rightarrow>
               finish (l1\<lparr> success := False,
                            error_msg := bad_format @ ascii '': '' @ not_found @ id_suffix request_id \<rparr>))
      | Inr False \<Rightarrow>
          (case py_contains (ascii ''combinedPhrases'') result_data of
             Inl ex \<Rightarrow> (Some ex, l, None)
           | Inr True \<Rightarrow>
               (let l1 = l\<lparr> success := True \<rparr> in
                case phrase_text result_data of
                  Inl ex \<Rightarrow> (Some ex, l1, None)
                | Inr (Some phrase) \<Rightarrow> finish (l1\<lparr> transcribed_text := phrase \<rparr>)
                | Inr None \<Rightarrow>
                    finish (l1\<lparr> success := False,
                                 error_msg := bad_format @ ascii ''('' @ [26032, 26684, 24335] @ ascii ''): ''
                                   @ not_found @ id_suffix request_id \<rparr>))
           | Inr False \<Rightarrow>
               finish (l\<lparr> success := False,
                           error_msg := bad_format @ ascii '': '' @ take 200 (json_dumps py result_data)
                             @ id_suffix request_id \<rparr>)))"

text \<open>
  \<^verbatim>\<open>'translations' in first_result and len(first_result['translations']) > 0\<close>
  followed by \<^verbatim>\<open>first_result['translations'][0]['text']\<close>; and the test
  \<^verbatim>\<open>result_data and isinstance(result_data, list) and len(result_data) > 0\<close>.
\<close>

definition translation_text :: "json \<Rightarrow> exn + json option" where
  "translation_text first_result =
     then_do (py_contains (ascii ''translations'') first_result) (\<lambda>has.
       if \<not> has then Inr None
       else then_do (py_getitem first_result (ascii ''translations'')) (\<lambda>translations.
         then_do (py_len translations) (\<lambda>n.
           if \<not> n > 0 then Inr None
           else then_do (py_getitem0 translations) (\<lambda>t0.
             then_do (py_getitem t0 (ascii ''text'')) (\<lambda>v. Inr (Some v))))))"

definition is_nonempty_list :: "json \<Rightarrow> bool" where
  "is_nonempty_list v = (case v of JArr (x # xs) \<Rightarrow> True | _ \<Rightarrow> False)"

definition text_translation_body ::
  "pylib \<Rightarrow> pystr \<Rightarrow> json \<Rightarrow> locals \<Rightarrow> exn option \<times> locals \<times> pystr option" where
  "text_translation_body py request_id result_data l =
     (let finish = (\<lambda>l'. (None, l',
            if \<not> success l' then format_error_note (ascii ''Translation format error: '') l'
            else Some (ascii ''Translation success'')));
          bad_format = [32763, 35793, 21709, 24212, 26684, 24335, 24322, 24120]
      in
      if is_nonempty_list result_data then
        (case then_do (py_getitem0 result_data) translation_text of
           Inl ex \<Rightarrow> (Some ex, l, None)
         | Inr (Some translated) \<Rightarrow> finish (l\<lparr> transcribed_text := translated, success := True \<rparr>)
         | Inr None \<Rightarrow>
             finish (l\<lparr> success := False,
                         error_msg := bad_format @ ascii '': '' @ [26410, 25214, 21040]
                           @ ascii ''translations'' @ id_suffix request_id \<rparr>))
      else
        finish (l\<lparr> success := False,
                    error_msg := bad_format @ ascii '': '' @ take 200 (json_dumps py result_data)
                      @ id_suffix request_id \<rparr>))"

definition speech_translation_body ::
  "pylib \<Rightarrow> pystr \<Rightarrow> json \<Rightarrow> locals \<Rightarrow> exn option \<times> locals \<times> pystr option" where
  "speech_translation_body py request_id result_data l =
     (let finish = (\<lambda>l'. (None, l',
            if \<not> success l' then format_error_note (ascii ''Speech translation format error: '') l'
            else None));
          bad_format = [35821, 38899, 32763, 35793, 21709, 24212, 26684, 24335, 24322, 24120]
      in
      case py_contains (ascii ''combinedPhrases'') result_data of
        Inl ex \<Rightarrow> (Some ex, l, None)
      | Inr True \<Rightarrow>
          (case phrase_text result_data of
             Inl ex \<Rightarrow> (Some ex, l, None)
           | Inr (Some phrase) \<Rightarrow> finish (l\<lparr> transcribed_text := phrase, success := True \<rparr>)
           | Inr None \<Rightarrow>
               finish (l\<lparr> success := False,
                           error_msg := bad_format @ ascii '': '' @ [26410, 25214, 21040, 25991, 26412, 20869, 23481]
                             @ id_suffix request_id \<rparr>))
      | Inr False \<Rightarrow>
          finish (l\<lparr> success := False,
                      error_msg := bad_format @ ascii '': '' @ take 200 (json_dumps py result_data)
                        @ id_suffix request_id \<rparr>))"

fun body_2xx ::
  "worker_kind \<Rightarrow> pylib \<Rightarrow> pystr \<Rightarrow> json \<Rightarrow> locals \<Rightarrow> exn option \<times> locals \<times> pystr option" where
  "body_2xx AsrShortAudio = asr_body"
| "body_2xx Transcription = transcription_body"
| "body_2xx TextTranslation = text_translation_body"
| "body_2xx SpeechTranslation = speech_translation_body"


text \<open>The branches on \<^verbatim>\<open>response.status_code\<close>.\<close>

definition http_branch ::
  "worker_kind \<Rightarrow> pylib \<Rightarrow> env \<Rightarrow> pystr \<Rightarrow> pystr \<Rightarrow> http_response \<Rightarrow> locals \<Rightarrow> world \<Rightarrow>
   exn option \<times> locals \<times> world" where
  "http_branch kind py e request_id azure_key r l w =
     (let status_code = resp_status_code r; api = e_status_api e in
      if status_code = 429 then
        (None,
         l\<lparr> error_msg := [35831, 27714, 36807, 22810] @ ascii '' (429)'' @ id_suffix request_id \<rparr>,
         snd (report_key_status_safe api azure_key 429 (ascii ''Rate limit exceeded'') w))
      else if status_code \<in> {401, 403, 404} then
        (None,
         l\<lparr> error_msg := [23494, 38053, 26080, 25928] @ ascii '' ('' @ str_nat status_code @ ascii '')''
                @ id_suffix request_id \<rparr>,
         snd (report_key_status_safe api azure_key status_code
                (ascii ''Key invalid: '' @ str_nat status_code) w))
      else if 200 \<le> status_code \<and> status_code < 300 then
        (case resp_json r of
           Inl ex \<Rightarrow> (Some ex, l, w)
         | Inr result_data \<Rightarrow>
             (case body_2xx kind py request_id result_data (l\<lparr> output_size := resp_content_length r \<rparr>) of
                (raised, l', None) \<Rightarrow> (raised, l', w)
              | (raised, l', Some note) \<Rightarrow>
                  (raised, l', snd (report_key_status_safe api azure_key 200 note w))))
      else
        (None,
         l\<lparr> error_msg := ascii ''HTTP'' @ [38169, 35823] @ ascii '' ('' @ str_nat status_code @ ascii '')''
                @ id_suffix request_id
                @ (if resp_text r \<noteq> [] then ascii '' | '' @ [21709, 24212] @ ascii '': '' @ take 200 (resp_text r)
                   else []) \<rparr>,
         snd (report_key_status_safe api azure_key status_code
                (ascii ''HTTP error: '' @ str_nat status_code) w)))"

text \<open>
  \<^verbatim>\<open>input_size\<close>: the bytes read from the audio file, the length of the serialised
  request, or the length of the synthesised WAV data (a header of 44 bytes and 32000
  samples of two bytes).
\<close>

definition payload_size :: "worker_kind \<Rightarrow> env \<Rightarrow> exn + nat" where
  "payload_size kind e =
     (case kind of
        AsrShortAudio \<Rightarrow> e_audio e
      | Transcription \<Rightarrow> e_audio e
      | TextTranslation \<Rightarrow> Inr (e_request_len e)
      | SpeechTranslation \<Rightarrow> Inr 64044)"

text \<open>
  The \<^verbatim>\<open>try\<close> block: the exception it raises, if any, with the local variables and
  effects at that point. \<^verbatim>\<open>get_azure_key_with_retry\<close> is called with its default of 3
  attempts and returns a reference into the store.
\<close>

definition try_body ::
  "worker_kind \<Rightarrow> pylib \<Rightarrow> env \<Rightarrow> pystr \<Rightarrow> locals \<Rightarrow> world \<Rightarrow> exn option \<times> locals \<times> world" where
  "try_body kind py e request_id l w =
     (if reads_file kind \<and> \<not> e_file_ok e
      then (Some (FileNotFoundError (missing_file_msg kind @ e_audio_file e)), l, w)
      else
        (case get_azure_key_with_retry (e_others e) 3 (manager w) of
           (key_data, manager', trace) \<Rightarrow>
             (let w1 = w\<lparr> manager := manager', lock_trace := lock_trace w @ trace \<rparr>;
                  l1 = l\<lparr> azure_key_info := (case key_data of None \<Rightarrow> None | Some b \<Rightarrow> objects manager' b) \<rparr>
              in
              case azure_key_info l1 of
                None \<Rightarrow> (Some (Exception (no_key_msg kind)), l1, w1)
              | Some info \<Rightarrow>
                  (case payload_size kind e of
                     Inl ex \<Rightarrow> (Some ex, l1, w1)
                   | Inr n \<Rightarrow>
                       (let l2 = l1\<lparr> input_size := n \<rparr>;
                            w2 = w1\<lparr> target_posts := target_posts w1
                                      @ [(cred_key info, cred_region info, request_id)] \<rparr>
                        in
                        case e_post e of
                          Inl ex \<Rightarrow> (Some ex, l2, w2)
                        | Inr r \<Rightarrow>
                            http_branch kind py e request_id (cred_key info) r
                              (l2\<lparr> response := Some r \<rparr>) w2)))))"

text \<open>
  The \<^verbatim>\<open>except\<close> clauses in their order, and \<^verbatim>\<open>isinstance\<close> for the classes of \<open>exn\<close>:
  a \<open>Timeout\<close> is a \<open>RequestException\<close>, and every class is an \<^verbatim>\<open>Exception\<close>.
\<close>

datatype except_clause = OnTimeout | OnRequestException | OnFileNotFoundError | OnException

fun isinstance :: "exn \<Rightarrow> except_clause \<Rightarrow> bool" where
  "isinstance ex OnException = True"
| "isinstance (Timeout m) OnTimeout = True"
| "isinstance (Timeout m) OnRequestException = True"
| "isinstance (RequestException m) OnRequestException = True"
| "isinstance (FileNotFoundError m) OnFileNotFoundError = True"
| "isinstance ex clause = False"

definition except_clauses :: "worker_kind \<Rightarrow> except_clause list" where
  "except_clauses kind =
     (if reads_file kind then [OnTimeout, OnRequestException, OnFileNotFoundError, OnException]
      else [OnTimeout, OnRequestException, OnException])"

text \<open>The body of each \<^verbatim>\<open>except\<close> clause.\<close>

definition except_handler ::
  "pylib \<Rightarrow> env \<Rightarrow> pystr \<Rightarrow> except_clause \<Rightarrow> exn \<Rightarrow> locals \<Rightarrow> world \<Rightarrow> locals \<times> world" where
  "except_handler py e request_id clause ex l w =
     (let api = e_status_api e in
      case clause of
        OnTimeout \<Rightarrow>
          (let l1 = l\<lparr> error_msg := [35831, 27714, 36229, 26102] @ id_suffix request_id \<rparr> in
           case azure_key_info l1 of
             Some info \<Rightarrow> (l1, snd (report_key_status_safe api (cred_key info) 408 (ascii ''Request timeout'') w))
           | None \<Rightarrow> (l1, w))
      | OnRequestException \<Rightarrow>
          (let l1 = l\<lparr> error_msg := [35831, 27714, 24322, 24120] @ ascii '': '' @ str_exn ex
                          @ id_suffix request_id \<rparr> in
           case response l1 of
             None \<Rightarrow> (l1, w)
           | Some r \<Rightarrow>
               (let l2 = l1\<lparr> error_msg := error_msg l1 @ ascii '' | '' @ [29366, 24577, 30721] @ ascii '': ''
                               @ str_nat (resp_status_code r) \<rparr> in
                case azure_key_info l2 of
                  Some info \<Rightarrow>
                    (l2, snd (report_key_status_safe api (cred_key info) (resp_status_code r)
                                (ascii ''Request exception: '' @ take 100 (str_exn ex)) w))
                | None \<Rightarrow> (l2, w)))
      | OnFileNotFoundError \<Rightarrow> (l\<lparr> error_msg := str_exn ex \<rparr>, w)
      | OnException \<Rightarrow>
          (let l1 = l\<lparr> error_msg := [24847, 22806, 38169, 35823] @ ascii '': '' @ format_exc py ex
                          @ id_suffix request_id \<rparr> in
           case azure_key_info l1 of
             Some info \<Rightarrow>
               (l1, snd (report_key_status_safe api (cred_key info) 500
                           (ascii ''Unexpected error: '' @ take 100 (str_exn ex)) w))
           | None \<Rightarrow> (l1, w)))"

text \<open>The assignments before the \<^verbatim>\<open>try\<close>, and the tuple the \<^verbatim>\<open>finally\<close> block appends.\<close>

definition initial_locals :: locals where
  "initial_locals =
     \<lparr> success = False, error_msg = [], input_size = 0, output_size = 0, response = None,
       transcribed_text = JStr [], azure_key_info = None \<rparr>"

definition make_request_id :: "worker_kind \<Rightarrow> env \<Rightarrow> pystr" where
  "make_request_id kind e = id_prefix kind @ e_thread_id e @ ascii ''-'' @ e_uuid4 e"

definition record_result :: "env \<Rightarrow> pystr \<Rightarrow> locals \<Rightarrow> request_result" where
  "record_result e request_id l =
     \<lparr> r_success = success l, r_total_time = e_end_time e - e_start_time e, r_first_chunk = None,
       r_input_size = input_size l, r_output_size = output_size l, r_error_msg = error_msg l,
       r_request_id = request_id, r_text = transcribed_text l \<rparr>"

text \<open>
  A worker: the \<^verbatim>\<open>try\<close> block, the first \<^verbatim>\<open>except\<close> clause that matches what it raised,
  and the \<^verbatim>\<open>finally\<close> block. The first component is the exception that leaves the
  function, if no clause matched.
\<close>

definition worker :: "worker_kind \<Rightarrow> pylib \<Rightarrow> env \<Rightarrow> world \<Rightarrow> exn option \<times> world" where
  "worker kind py e w =
     (let request_id = make_request_id kind e in
      case try_body kind py e request_id initial_locals w of
        (raised, l1, w1) \<Rightarrow>
          (case (case raised of
                   None \<Rightarrow> (None, l1, w1)
                 | Some ex \<Rightarrow>
                     (case find (isinstance ex) (except_clauses kind) of
                        None \<Rightarrow> (Some ex, l1, w1)
                      | Some clause \<Rightarrow>
                          (case except_handler py e request_id clause ex l1 w1 of
                             (l2, w2) \<Rightarrow> (None, l2, w2)))) of
             (escaped, l3, w3) \<Rightarrow>
               (escaped, w3\<lparr> result_list := result_list w3 @ [record_result e request_id l3] \<rparr>)))"

definition test_asr_short_audio_api :: "pylib \<Rightarrow> env \<Rightarrow> world \<Rightarrow> exn option \<times> world" where
  "test_asr_short_audio_api = worker AsrShortAudio"

definition test_transcription_api :: "pylib \<Rightarrow> env \<Rightarrow> world \<Rightarrow> exn option \<times> world" where
  "test_transcription_api = worker Transcription"

definition test_text_translation_api :: "pylib \<Rightarrow> env \<Rightarrow> world \<Rightarrow> exn option \<times> world" where
  "test_text_translation_api = worker TextTranslation"

definition test_speech_translation_api :: "pylib \<Rightarrow> env \<Rightarrow> world \<Rightarrow> exn option \<times> world" where
  "test_speech_translation_api = worker SpeechTranslation"




section \<open>The classification of an attempt\<close>





text \<open>
  An attempt that issues its request with the credential \<open>info\<close> in hand: the file check
  passes, the key is obtained and the payload is read.
\<close>

definition request_issued :: "worker_kind \<Rightarrow> env \<Rightarrow> world \<Rightarrow> credential \<Rightarrow> bool" where
  "request_issued kind e w info =
     ((reads_file kind \<longrightarrow> e_file_ok e)
      \<and> (case get_azure_key_with_retry (e_others e) 3 (manager w) of
           (None, manager', trace) \<Rightarrow> False
         | (Some b, manager', trace) \<Rightarrow> objects manager' b = Some info)
      \<and> (case payload_size kind e of Inl ex \<Rightarrow> False | Inr n \<Rightarrow> True))"


section \<open>Concrete runs\<close>

text \<open>Inputs on which the properties below are evaluated.\<close>

definition failed_timeout :: request_result where
  "failed_timeout =
     \<lparr> r_success = False, r_total_time = 45, r_first_chunk = None, r_input_size = 0,
       r_output_size = 0, r_error_msg = [35831, 27714, 36229, 26102] @ ascii '' (ID: ASR-Request-7-u)'',
       r_request_id = ascii ''ASR-Request-7-u'', r_text = JStr [] \<rparr>"

definition failed_rate_limit :: request_result where
  "failed_rate_limit =
     \<lparr> r_success = False, r_total_time = 0.1, r_first_chunk = None, r_input_size = 10,
       r_output_size = 0,
       r_error_msg = [35831, 27714, 36807, 22810] @ ascii '' (429) (ID: ASR-Request-8-u)'',
       r_request_id = ascii ''ASR-Request-8-u'', r_text = JStr [] \<rparr>"


definition key_a :: credential where
  "key_a = \<lparr> cred_key = ascii ''0123456789abcdef'', cred_region = ascii ''eastasia'' \<rparr>"

definition key_b :: credential where
  "key_b = \<lparr> cred_key = ascii ''fedcba9876543210'', cred_region = ascii ''eastasia'' \<rparr>"

definition good_reply :: "credential \<Rightarrow> exn + key_reply" where
  "good_reply c = Inr \<lparr> reply_success = True, reply_data = Some c \<rparr>"

definition refresh_run :: "((exn + key_reply) \<times> real) list" where
  "refresh_run =
     [(Inl (RequestException (ascii ''connection refused'')), 0),
      (good_reply key_a, 5),
      (Inr \<lparr> reply_success = False, reply_data = Some key_b \<rparr>, 10),
      (Inr \<lparr> reply_success = True, reply_data = None \<rparr>, 15)]"


text \<open>
  Library functions, stores and environments for the workers: an empty store and one
  whose refresher has committed a credential; a short-audio request that is answered with
  a recognised text, with "no match", with a refused connection, with status 429, with a
  timeout, and with a body that is not JSON.
\<close>

definition py0 :: pylib where
  "py0 = \<lparr> format_exc = (\<lambda>ex. ascii ''Traceback (most recent call last): '' @ str_exn ex),
           json_dumps = (\<lambda>v. ascii ''{}''),
           format_value = (\<lambda>v. case v of JStr s \<Rightarrow> s | _ \<Rightarrow> ascii ''?'') \<rparr>"

definition world_empty :: world where
  "world_empty = \<lparr> manager = key_manager_init, lock_trace = [], target_posts = [], status_posts = [],
                   result_list = [] \<rparr>"

definition world_ready :: world where
  "world_ready = world_empty\<lparr> manager := update_key_once (good_reply key_a, 5) key_manager_init \<rparr>"

definition env_ok :: env where
  "env_ok =
     \<lparr> e_thread_id = ascii ''Request-0'', e_uuid4 = ascii ''u'',
       e_audio_file = ascii ''asr_vad_punc_example.wav'', e_file_ok = True, e_audio = Inr 1000,
       e_request_len = 700, e_others = (\<lambda>attempt. []),
       e_post = Inr \<lparr> resp_status_code = 200, resp_text = ascii ''{...}'', resp_content_length = 60,
                      resp_json = Inr (JObj [(ascii ''RecognitionStatus'', JStr (ascii ''Success'')),
                                             (ascii ''DisplayText'', JStr (ascii ''hello''))]) \<rparr>,
       e_status_api = (\<lambda>report. Inr True), e_start_time = 0, e_end_time = 0.25 \<rparr>"

definition env_no_match :: env where
  "env_no_match =
     env_ok\<lparr> e_post := Inr \<lparr> resp_status_code = 200, resp_text = ascii ''{...}'', resp_content_length = 40,
                      resp_json = Inr (JObj [(ascii ''RecognitionStatus'', JStr (ascii ''NoMatch''))]) \<rparr> \<rparr>"






section \<open>Auxiliary notions\<close>

text \<open>The total count that \<open>stats\<close> holds for the messages satisfying \<open>P\<close>.\<close>

definition weight :: "(pystr \<Rightarrow> bool) \<Rightarrow> (pystr \<times> nat) list \<Rightarrow> nat" where
  "weight P stats = sum_list (map snd (filter (\<lambda>kv. P (fst kv)) stats))"

text \<open>
  The payload and time stamp a round of the refresher commits: \<open>None\<close> when the call
  raised, reported no success or carried no data.
\<close>

definition refreshed :: "(exn + key_reply) \<times> real \<Rightarrow> (credential \<times> real) option" where
  "refreshed attempt =
     (case fst attempt of
        Inl e \<Rightarrow> None
      | Inr reply \<Rightarrow>
          (case (reply_success reply, reply_data reply) of
             (True, Some data) \<Rightarrow> Some (data, snd attempt)
           | _ \<Rightarrow> None))"

text \<open>
  The store is well formed when no object lies at or beyond \<open>fresh\<close> and the slot refers
  to an allocated object.
\<close>

definition well_formed :: "key_manager \<Rightarrow> bool" where
  "well_formed km =
     ((\<forall>a. fresh km \<le> a \<longrightarrow> objects km a = None)
      \<and> (\<forall>a. current_key km = Some a \<longrightarrow> a < fresh km \<and> objects km a \<noteq> None))"


text \<open>The first \<^verbatim>\<open>except\<close> clause that matches an exception.\<close>

definition clause_of :: "worker_kind \<Rightarrow> exn \<Rightarrow> except_clause" where
  "clause_of kind ex =
     (case ex of
        Timeout m \<Rightarrow> OnTimeout
      | RequestException m \<Rightarrow> OnRequestException
      | FileNotFoundError m \<Rightarrow> if reads_file kind then OnFileNotFoundError else OnException
      | _ \<Rightarrow> OnException)"



section \<open>Properties of the aggregator\<close>

lemma weight_nil: "weight P [] = 0"
  by (simp add: weight_def)

lemma bump_nonempty: "bump m stats \<noteq> []"
  by (cases stats) (auto split: if_splits)

lemma weight_bump: "weight P (bump m stats) = weight P stats + (if P m then 1 else 0)"
  by (induction stats) (auto simp: weight_def)

lemma weight_fold:
  "weight P (foldl (\<lambda>stats result. if failed_with_msg result then bump (r_error_msg result) stats else stats) acc rs)
   = weight P acc + length (filter (\<lambda>r. failed_with_msg r \<and> P (r_error_msg r)) rs)"
  by (induction rs arbitrary: acc) (auto simp: weight_bump)

lemma weight_error_stats:
  "weight P (error_stats rs) = length (filter (\<lambda>r. failed_with_msg r \<and> P (r_error_msg r)) rs)"
  by (simp add: error_stats_def weight_fold weight_nil)

lemma counts_fold:
  "foldl (\<lambda>counts (error_msg, count).
              counts (error_type_of lower error_msg := counts (error_type_of lower error_msg) + count))
       init stats t = init t + weight (\<lambda>m. error_type_of lower m = t) stats"
  by (induction stats arbitrary: init) (auto simp: weight_def)

lemma error_type_counts_eq:
  "error_type_counts lower (error_stats rs) t =
     length (filter (\<lambda>r. failed_with_msg r \<and> error_type_of lower (r_error_msg r) = t) rs)"
  by (simp add: error_type_counts_def counts_fold weight_error_stats)

lemma five_way_split:
  "length (filter (\<lambda>r. P r \<and> f r = E429) rs) + length (filter (\<lambda>r. P r \<and> f r = E400) rs)
   + length (filter (\<lambda>r. P r \<and> f r = ETimeout) rs) + length (filter (\<lambda>r. P r \<and> f r = EConnection) rs)
   + length (filter (\<lambda>r. P r \<and> f r = EOther) rs) = length (filter P rs)"
proof (induction rs)
  case Nil
  then show ?case by simp
next
  case (Cons r rs)
  then show ?case by (cases "f r") auto
qed

lemma stats_fold_empty_iff:
  "foldl (\<lambda>stats result. if failed_with_msg result then bump (r_error_msg result) stats else stats) acc rs = []
   \<longleftrightarrow> acc = [] \<and> filter failed_with_msg rs = []"
  by (induction rs arbitrary: acc) (auto simp: bump_nonempty)

lemma error_stats_empty_iff: "error_stats rs = [] \<longleftrightarrow> filter failed_with_msg rs = []"
  by (simp add: error_stats_def stats_fold_empty_iff)

lemma sum_len_no_zero_division: "sum_len rs \<noteq> Inl (ZeroDivisionError m)"
proof (induction rs)
  case Nil
  then show ?case by simp
next
  case (Cons r rs)
  have "py_len v \<noteq> Inl (ZeroDivisionError m)" for v
    by (cases v) auto
  with Cons show ?case
    by (auto simp: then_do_def split: sum.splits)
qed

lemma total_chars_no_zero_division: "total_chars own_worker rs \<noteq> Inl (ZeroDivisionError m)"
  by (simp add: total_chars_def sum_len_no_zero_division)

text \<open>
  On a non-empty sink every division of the summary has a non-zero divisor, and the row is
  written as soon as the character count does not raise.
\<close>

lemma run_summary_nonempty:
  assumes "test_results \<noteq> []"
  shows "run_summary script lower set_order own_worker test_results actual_duration =
     then_do (total_chars own_worker test_results) (\<lambda>chars.
       Inr (Some \<lparr> total_results_recorded = length test_results,
                   row_success_count = success_count test_results,
                   row_error_count = length test_results - success_count test_results,
                   row_success_rate = real (success_count test_results) / real (length test_results) * 100,
                   row_total_chars = chars,
                   avg_request_duration =
                     (if success_count test_results > 0
                      then total_latency test_results * 1000 / real (success_count test_results) else 0),
                   actual_rpm = real (success_count test_results) / max actual_duration 0.001 * 60,
                   errors_sample =
                     (case script of
                        AsrScript \<Rightarrow> asr_errors_sample lower test_results
                      | TranslationScript \<Rightarrow> translation_errors_sample set_order test_results) \<rparr>))"
proof -
  have m: "max actual_duration 0.001 \<noteq> 0"
    by (simp add: max_def)
  from assms have l: "length test_results \<noteq> 0" by simp
  show ?thesis
    using m l by (simp add: run_summary_def Let_def then_do_def py_div_def split: sum.splits)
qed

text \<open>
  C7. When the sink is empty at the end of the run, \<^verbatim>\<open>run_test_even_rpm\<close> returns its
  "no data" outcome (\<open>None\<close>) instead of a summary row, for every measured duration, before
  any division is evaluated; and on no sink at all does the summary end in a
  \<^verbatim>\<open>ZeroDivisionError\<close>.
\<close>

theorem empty_results_no_data:
  "run_summary script lower set_order own_worker [] actual_duration = Inr None
   \<and> (\<forall>m. run_summary script lower set_order own_worker test_results actual_duration
          \<noteq> Inl (ZeroDivisionError m))"
proof (intro conjI allI)
  show "run_summary script lower set_order own_worker [] actual_duration = Inr None"
    by (simp add: run_summary_def)
next
  fix m
  show "run_summary script lower set_order own_worker test_results actual_duration \<noteq> Inl (ZeroDivisionError m)"
  proof (cases "test_results = []")
    case True
    then show ?thesis by (simp add: run_summary_def)
  next
    case False
    show ?thesis
      using total_chars_no_zero_division [of own_worker test_results m]
      by (auto simp: run_summary_nonempty [OF False] then_do_def split: sum.splits)
  qed
qed




text \<open>
  C9, as stated, fails for az_translation_test.py: the cell it persists is the first
  five distinct raw messages, so one failed request and two failed requests with the same
  message persist the same cell, in whatever order the set lists its elements, and no
  count in it adds up to the number of failed results.
\<close>

theorem translation_sample_counterexample:
  "(\<forall>set_order. translation_errors_sample set_order [failed_timeout, failed_timeout]
        = translation_errors_sample set_order [failed_timeout])
   \<and> length (filter failed_with_msg [failed_timeout, failed_timeout]) = 2
   \<and> length (filter failed_with_msg [failed_timeout]) = 1
   \<and> translation_errors_sample id [failed_timeout, failed_timeout] = r_error_msg failed_timeout"
  by (simp add: translation_errors_sample_def failed_with_msg_def failed_timeout_def)

text \<open>
  C9, amended. In the error summary persisted by az_asr_test.py every failed result with a
  non-empty message is tallied into exactly one of the five fixed categories (429, 400,
  timeout, connection, other), the one \<open>error_type_of\<close> selects by substring match on its
  message; the five counts add up to the number of such results; and the persisted cell
  lists exactly the categories with a positive count, each with its count, or the
  "no errors" literal when there is no such result. (az_translation_test.py persists up to
  five distinct raw messages instead.)
\<close>

theorem asr_error_tally:
  "(\<forall>t. error_type_counts lower (error_stats test_results) t =
         length (filter (\<lambda>r. failed_with_msg r \<and> error_type_of lower (r_error_msg r) = t) test_results))
   \<and> error_type_counts lower (error_stats test_results) E429
     + error_type_counts lower (error_stats test_results) E400
     + error_type_counts lower (error_stats test_results) ETimeout
     + error_type_counts lower (error_stats test_results) EConnection
     + error_type_counts lower (error_stats test_results) EOther
     = length (filter failed_with_msg test_results)
   \<and> asr_errors_sample lower test_results =
       (if filter failed_with_msg test_results = [] then [26080, 38169, 35823]
        else join (ascii '' | '')
          (map (\<lambda>t. error_type_name t @ ascii '':'' @
                  str_nat (error_type_counts lower (error_stats test_results) t) @ [27425])
            (filter (\<lambda>t. error_type_counts lower (error_stats test_results) t > 0)
               [E429, E400, ETimeout, EConnection, EOther])))"
proof (intro conjI allI)
  fix t
  show "error_type_counts lower (error_stats test_results) t =
         length (filter (\<lambda>r. failed_with_msg r \<and> error_type_of lower (r_error_msg r) = t) test_results)"
    by (rule error_type_counts_eq)
next
  show "error_type_counts lower (error_stats test_results) E429
     + error_type_counts lower (error_stats test_results) E400
     + error_type_counts lower (error_stats test_results) ETimeout
     + error_type_counts lower (error_stats test_results) EConnection
     + error_type_counts lower (error_stats test_results) EOther
     = length (filter failed_with_msg test_results)"
    unfolding error_type_counts_eq by (rule five_way_split)
next
  have short: "take 5 (map g (filter Q [E429, E400, ETimeout, EConnection, EOther])) =
     map g (filter Q [E429, E400, ETimeout, EConnection, EOther])" for g :: "error_type \<Rightarrow> pystr" and Q
    by (rule take_all) (simp add: le_trans [OF length_filter_le])
  show "asr_errors_sample lower test_results =
       (if filter failed_with_msg test_results = [] then [26080, 38169, 35823]
        else join (ascii '' | '')
          (map (\<lambda>t. error_type_name t @ ascii '':'' @
                  str_nat (error_type_counts lower (error_stats test_results) t) @ [27425])
            (filter (\<lambda>t. error_type_counts lower (error_stats test_results) t > 0)
               [E429, E400, ETimeout, EConnection, EOther])))"
    unfolding asr_errors_sample_def Let_def error_stats_empty_iff short by simp
qed

section \<open>Properties of the dispatcher\<close>

lemma fire_request_id_mono: "d_request_id s \<le> d_request_id (fire iv t s)"
  by (simp add: fire_def Let_def)

lemma fire_started:
  "d_started (fire iv t s) = d_started s \<or> d_started (fire iv t s) = d_started s @ [d_request_id s]"
  by (simp add: fire_def Let_def)

lemma fire_started_bound:
  assumes "k \<in> set (d_started (fire iv t s))"
  shows "k \<in> set (d_started s) \<or> k = d_request_id s"
  using assms fire_started [of iv t s] by auto

lemma fire_fresh:
  assumes "\<forall>i\<in>set (d_started s). i < d_request_id s"
  shows "\<forall>i\<in>set (d_started (fire iv t s)). i < d_request_id (fire iv t s)"
  using assms by (auto simp: fire_def Let_def)

lemma dispatcher_later_ids:
  assumes "k \<in> set (d_started (dispatcher t0 d iv clock s))"
  shows "k \<in> set (d_started s) \<or> d_request_id s \<le> k"
  using assms
proof (induction clock arbitrary: s)
  case Nil
  then show ?case by simp
next
  case (Cons t clock)
  show ?case
  proof (cases "d_stop_event s \<or> t - t0 \<ge> d")
    case True
    with Cons.prems show ?thesis by (auto split: if_splits)
  next
    case False
    with Cons.prems have "k \<in> set (d_started (dispatcher t0 d iv clock (fire iv t s)))"
      by simp
    then have "k \<in> set (d_started (fire iv t s)) \<or> d_request_id (fire iv t s) \<le> k"
      by (rule Cons.IH)
    then show ?thesis
      using fire_started_bound [of k iv t s] fire_request_id_mono [of s iv t] by auto
  qed
qed

lemma py_int_floor: "0 \<le> x \<Longrightarrow> py_int x = \<lfloor>x\<rfloor>"
  by (simp add: py_int_def)

text \<open>Every thread number started so far is below the current request index.\<close>

lemma dispatcher_fresh:
  assumes "\<forall>i\<in>set (d_started s). i < d_request_id s"
  shows "\<forall>i\<in>set (d_started (dispatcher t0 d iv clock s)). i < d_request_id (dispatcher t0 d iv clock s)"
  using assms
proof (induction clock arbitrary: s)
  case Nil
  then show ?case by simp
next
  case (Cons t clock)
  then show ?case using fire_fresh [of s iv t] by simp
qed

text \<open>
  C2. In a round of the dispatcher loop that starts a worker (the run is not stopped, the
  duration is not reached, the planned time is due) and in which, after \<^verbatim>\<open>next_time\<close> was
  advanced by one interval, the time read at the head of the round is still past it:
  with \<open>skips = floor((current_time - d_next_time) / request_interval)\<close>, the round
  advances \<^verbatim>\<open>next_time\<close> by exactly \<open>skips\<close> further intervals and the request index by
  the same \<open>skips\<close>, it starts exactly one thread (the one numbered by the old index), and
  no later round of the loop, on any clock, ever starts a thread for one of the skipped
  indices.
\<close>

theorem dispatcher_skips_missed_slots:
  assumes iv: "0 < request_interval"
    and run: "\<not> d_stop_event s" "current_time - start_run_time < test_duration_seconds"
    and due: "d_next_time s \<le> current_time"
    and late: "d_next_time s + request_interval < current_time"
    and fresh: "\<forall>i\<in>set (d_started s). i < d_request_id s"
    and skips: "skips = \<lfloor>(current_time - (d_next_time s + request_interval)) / request_interval\<rfloor>"
    and s': "s' = dispatcher start_run_time test_duration_seconds request_interval [current_time] s"
  shows "0 \<le> skips
    \<and> d_next_time s' = d_next_time s + request_interval + real_of_int skips * request_interval
    \<and> d_request_id s' = d_request_id s + 1 + skips
    \<and> d_started s' = d_started s @ [d_request_id s]
    \<and> (\<forall>clock. \<forall>k. d_request_id s < k \<and> k < d_request_id s' \<longrightarrow>
          k \<notin> set (d_started (dispatcher start_run_time test_duration_seconds request_interval clock s')))"
proof -
  have pos: "0 \<le> (current_time - (d_next_time s + request_interval)) / request_interval"
    using iv late by simp
  then have sk: "0 \<le> skips" unfolding skips by simp
  have s'_eq: "s' = fire request_interval current_time s"
    using run by (simp add: s')
  have pi: "py_int ((current_time - (d_next_time s + request_interval)) / request_interval) = skips"
    using pos by (simp add: py_int_floor skips)
  have nt: "d_next_time s' = d_next_time s + request_interval + real_of_int skips * request_interval"
    and rid: "d_request_id s' = d_request_id s + 1 + skips"
    and st: "d_started s' = d_started s @ [d_request_id s]"
    using due late sk pi by (auto simp: s'_eq fire_def Let_def)
  have never: "k \<notin> set (d_started (dispatcher start_run_time test_duration_seconds request_interval clock s'))"
    if "d_request_id s < k" "k < d_request_id s'" for clock k
  proof
    assume "k \<in> set (d_started (dispatcher start_run_time test_duration_seconds request_interval clock s'))"
    then have "k \<in> set (d_started s') \<or> d_request_id s' \<le> k"
      by (rule dispatcher_later_ids)
    with that fresh st show False by auto
  qed
  from sk nt rid st never show ?thesis by blast
qed

theorem dispatcher_skips_witness:
  "dispatcher 0 60 0.06 [0, 0.25] (dispatcher_init 0) =
     \<lparr> d_request_id = 4, d_next_time = 0.24, d_started = [0, 1], d_stop_event = False \<rparr>
   \<and> 2 \<notin> set (d_started (dispatcher 0 60 0.06 [0, 0.25, 0.31, 0.37, 61] (dispatcher_init 0)))
   \<and> 3 \<notin> set (d_started (dispatcher 0 60 0.06 [0, 0.25, 0.31, 0.37, 61] (dispatcher_init 0)))"
proof -
  define s where "s = \<lparr> d_request_id = 1, d_next_time = 0.06, d_started = [0::int], d_stop_event = False \<rparr>"
  define s' where "s' = dispatcher 0 60 0.06 [0.25] s"
  have fl: "\<lfloor>(0.25 - (0.06 + 0.06)) / (0.06::real)\<rfloor> = 2" by simp
  have th: "0 \<le> (2::int)
    \<and> d_next_time s' = d_next_time s + 0.06 + real_of_int 2 * 0.06
    \<and> d_request_id s' = d_request_id s + 1 + 2
    \<and> d_started s' = d_started s @ [d_request_id s]
    \<and> (\<forall>clock. \<forall>k. d_request_id s < k \<and> k < d_request_id s' \<longrightarrow>
          k \<notin> set (d_started (dispatcher 0 60 0.06 clock s')))"
    by (rule dispatcher_skips_missed_slots [where skips = 2 and request_interval = "0.06"
          and current_time = "0.25" and start_run_time = 0 and test_duration_seconds = 60])
       (simp_all add: s_def s'_def fl)
  have stop: "\<not> d_stop_event s'"
    by (simp add: s'_def s_def fire_def py_int_def)
  have b: "s' = \<lparr> d_request_id = 4, d_next_time = 0.24, d_started = [0, 1], d_stop_event = False \<rparr>"
    using th stop by (cases s') (simp add: s_def)
  have a: "dispatcher 0 60 0.06 (0 # 0.25 # clock) (dispatcher_init 0) = dispatcher 0 60 0.06 clock s'" for clock
    by (simp add: s'_def s_def dispatcher_init_def fire_def)
  have c: "k \<notin> set (d_started (dispatcher 0 60 0.06 clock s'))" if "1 < k" "k < 4" for k clock
    using th that by (simp add: s_def)
  show ?thesis
    using b c [of 2 "[0.31, 0.37, 61]"] c [of 3 "[0.31, 0.37, 61]"]
    unfolding a by simp
qed

section \<open>Properties of the credential cache\<close>

lemma update_failed: "refreshed attempt = None \<Longrightarrow> update_key_once attempt km = km"
  by (auto simp: refreshed_def update_key_once_def get_key_def Let_def split: sum.splits bool.splits option.splits)

lemma update_succeeded:
  assumes "refreshed attempt = Some (data, t)"
  shows "update_key_once attempt km =
           km\<lparr> objects := (objects km)(fresh km := Some data), current_key := Some (fresh km),
                fresh := Suc (fresh km), last_update_time := t \<rparr>"
  using assms
  by (auto simp: refreshed_def update_key_once_def get_key_def Let_def split: sum.splits bool.splits option.splits)

lemma stored_update_succeeded:
  "refreshed attempt = Some (data, t) \<Longrightarrow>
     stored (update_key_once attempt km) = Some data \<and> last_update_time (update_key_once attempt km) = t"
  by (simp add: update_succeeded stored_def)

lemma update_periodically_snoc:
  "update_key_periodically (attempts @ [attempt]) km = update_key_once attempt (update_key_periodically attempts km)"
  by (simp add: update_key_periodically_def)

lemma map_filter_snoc:
  "List.map_filter f (xs @ [x]) = List.map_filter f xs @ (case f x of None \<Rightarrow> [] | Some y \<Rightarrow> [y])"
  by (simp add: map_filter_def split: option.splits)

lemma last_refresh_wins:
  "stored (update_key_periodically attempts km) =
     (if List.map_filter refreshed attempts = [] then stored km
      else Some (fst (last (List.map_filter refreshed attempts))))
   \<and> last_update_time (update_key_periodically attempts km) =
     (if List.map_filter refreshed attempts = [] then last_update_time km
      else snd (last (List.map_filter refreshed attempts)))"
proof (induction attempts rule: rev_induct)
  case Nil
  then show ?case by (simp add: update_key_periodically_def map_filter_simps)
next
  case (snoc attempt attempts)
  show ?case
  proof (cases "refreshed attempt")
    case None
    then show ?thesis
      using snoc by (simp add: update_periodically_snoc update_failed map_filter_snoc)
  next
    case (Some p)
    then show ?thesis
      using stored_update_succeeded [of attempt "fst p" "snd p" "update_key_periodically attempts km"]
      by (simp add: update_periodically_snoc map_filter_snoc)
  qed
qed




lemma stored_None_iff: "well_formed km \<Longrightarrow> stored km = None \<longleftrightarrow> current_key km = None"
  by (auto simp: stored_def well_formed_def split: option.splits)







text \<open>
  C3. The slot starts empty. A round of the refresher whose call raised, reported no
  success or carried no data leaves every class variable as it was, the stored credential
  and its time stamp included; a round that succeeded with a payload replaces the stored
  credential by the payload and the time stamp by the time of the round. So after any
  number of rounds the slot holds the payload of the last successful round, or what it
  held before when none succeeded, and a slot that is non-empty stays non-empty.
\<close>

theorem credential_slot_lifecycle:
  "current_key key_manager_init = None
   \<and> ((\<forall>reply. http = Inr reply \<longrightarrow> \<not> (reply_success reply \<and> reply_data reply \<noteq> None))
        \<longrightarrow> update_key_once (http, t) km = km)
   \<and> (reply_success reply \<and> reply_data reply = Some data
        \<longrightarrow> stored (update_key_once (Inr reply, t) km) = Some data
          \<and> last_update_time (update_key_once (Inr reply, t) km) = t)
   \<and> stored (update_key_periodically attempts km) =
        (if List.map_filter refreshed attempts = [] then stored km
         else Some (fst (last (List.map_filter refreshed attempts))))
   \<and> last_update_time (update_key_periodically attempts km) =
        (if List.map_filter refreshed attempts = [] then last_update_time km
         else snd (last (List.map_filter refreshed attempts)))
   \<and> (stored km \<noteq> None \<longrightarrow> stored (update_key_periodically attempts km) \<noteq> None)"
proof (intro conjI impI)
  show "current_key key_manager_init = None"
    by (simp add: key_manager_init_def)
next
  assume "\<forall>reply. http = Inr reply \<longrightarrow> \<not> (reply_success reply \<and> reply_data reply \<noteq> None)"
  then have "refreshed (http, t) = None"
    by (auto simp: refreshed_def split: sum.splits bool.splits option.splits)
  then show "update_key_once (http, t) km = km"
    by (rule update_failed)
next
  assume "reply_success reply \<and> reply_data reply = Some data"
  then have r: "refreshed (Inr reply, t) = Some (data, t)"
    by (simp add: refreshed_def)
  from stored_update_succeeded [OF r]
  show "stored (update_key_once (Inr reply, t) km) = Some data"
    and "last_update_time (update_key_once (Inr reply, t) km) = t"
    by simp_all
next
  show "stored (update_key_periodically attempts km) =
        (if List.map_filter refreshed attempts = [] then stored km
         else Some (fst (last (List.map_filter refreshed attempts))))"
    and "last_update_time (update_key_periodically attempts km) =
        (if List.map_filter refreshed attempts = [] then last_update_time km
         else snd (last (List.map_filter refreshed attempts)))"
    using last_refresh_wins [of attempts km] by simp_all
next
  assume "stored km \<noteq> None"
  then show "stored (update_key_periodically attempts km) \<noteq> None"
    using last_refresh_wins [of attempts km] by simp
qed

theorem credential_slot_lifecycle_witness:
  "update_key_periodically refresh_run key_manager_init
     = update_key_once (good_reply key_a, 5) key_manager_init
   \<and> stored (update_key_periodically refresh_run key_manager_init) = Some key_a
   \<and> last_update_time (update_key_periodically refresh_run key_manager_init) = 5
   \<and> update_key_once (Inl (Timeout []), 20) (update_key_once (good_reply key_a, 5) key_manager_init)
       = update_key_once (good_reply key_a, 5) key_manager_init"
proof -
  define km where "km = update_key_once (good_reply key_a, 5) key_manager_init"
  have l: "List.map_filter refreshed refresh_run = [(key_a, 5)]"
    by (simp add: refresh_run_def map_filter_def refreshed_def good_reply_def)
  have f: "\<forall>reply. (Inl (Timeout []) :: exn + key_reply) = Inr reply \<longrightarrow>
             \<not> (reply_success reply \<and> reply_data reply \<noteq> None)"
    by simp
  have run: "update_key_periodically refresh_run key_manager_init = km"
    by (simp add: refresh_run_def update_key_periodically_def update_key_once_def get_key_def km_def good_reply_def)
  from credential_slot_lifecycle [where http = "Inl (Timeout [])" and t = 20 and km = km
      and attempts = "[]"] f
  have fail: "update_key_once (Inl (Timeout []), 20) km = km"
    by blast
  from credential_slot_lifecycle [where km = key_manager_init and attempts = refresh_run] l
  have "stored (update_key_periodically refresh_run key_manager_init) = Some key_a"
    and "last_update_time (update_key_periodically refresh_run key_manager_init) = 5"
    by simp_all
  with fail run show ?thesis
    unfolding km_def [symmetric] by simp
qed



section \<open>Properties of the workers\<close>



lemma asr_body_raise: "asr_body py rid d l = (Some ex, l', note) \<Longrightarrow> note = None"
  by (auto simp: asr_body_def split: sum.splits if_splits)

lemma transcription_body_raise: "transcription_body py rid d l = (Some ex, l', note) \<Longrightarrow> note = None"
  by (cases "has_channels d"; cases "channel_lexical d"; cases "py_contains (ascii ''combinedPhrases'') d";
      cases "phrase_text d")
     (auto simp: transcription_body_def Let_def split: bool.splits option.splits)

lemma text_translation_body_raise: "text_translation_body py rid d l = (Some ex, l', note) \<Longrightarrow> note = None"
  by (cases "then_do (py_getitem0 d) translation_text")
     (auto simp: text_translation_body_def Let_def split: if_splits option.splits)

lemma speech_translation_body_raise: "speech_translation_body py rid d l = (Some ex, l', note) \<Longrightarrow> note = None"
  by (cases "py_contains (ascii ''combinedPhrases'') d"; cases "phrase_text d")
     (auto simp: speech_translation_body_def Let_def split: bool.splits option.splits)

lemma body_raise: "body_2xx kind py rid d l = (Some ex, l', note) \<Longrightarrow> note = None"
  by (cases kind)
     (auto dest: asr_body_raise transcription_body_raise text_translation_body_raise speech_translation_body_raise)













lemma find_clause: "find (isinstance ex) (except_clauses kind) = Some (clause_of kind ex)"
  by (cases ex) (simp_all add: except_clauses_def clause_of_def)




lemma worker_eq:
  "worker kind py e w =
     (case try_body kind py e (make_request_id kind e) initial_locals w of
        (None, l1, w1) \<Rightarrow>
          (None, w1\<lparr> result_list := result_list w1 @ [record_result e (make_request_id kind e) l1] \<rparr>)
      | (Some ex, l1, w1) \<Rightarrow>
          (case except_handler py e (make_request_id kind e) (clause_of kind ex) ex l1 w1 of
             (l2, w2) \<Rightarrow>
               (None, w2\<lparr> result_list := result_list w2 @ [record_result e (make_request_id kind e) l2] \<rparr>)))"
  by (simp add: worker_def Let_def find_clause split: prod.splits option.splits)








lemma try_body_no_key:
  assumes "reads_file kind \<longrightarrow> e_file_ok e"
    and "get_azure_key_with_retry (e_others e) 3 (manager w) = (None, m', trace)"
  shows "try_body kind py e rid l w =
     (Some (Exception (no_key_msg kind)), l\<lparr> azure_key_info := None \<rparr>,
      w\<lparr> manager := m', lock_trace := lock_trace w @ trace \<rparr>)"
  using assms by (auto simp: try_body_def Let_def)






lemma upt3: "[0..<3] = [0, 1, 2]"
  by (simp add: upt_rec)

lemma get_ready:
  "get_azure_key_with_retry (\<lambda>attempt. []) 3 (update_key_once (good_reply key_a, 5) key_manager_init) =
     (Some 1,
      \<lparr> objects = (\<lambda>a. if a = 0 \<or> a = 1 then Some key_a else None), fresh = 2, current_key = Some 0,
        last_update_time = 5 \<rparr>,
      [Acquire, CopyOut 0 1, Release])"
  by (auto simp: get_azure_key_with_retry_def upt3 update_key_periodically_def update_key_once_def
      good_reply_def get_key_def key_manager_init_def fun_eq_iff)

lemma issued_no_match: "request_issued AsrShortAudio env_no_match world_ready key_a"
  by (simp add: request_issued_def env_no_match_def env_ok_def world_ready_def world_empty_def get_ready payload_size_def)






text \<open>
  C5. When the file check passes and \<^verbatim>\<open>get_azure_key_with_retry\<close> returns \<^verbatim>\<open>None\<close>, the
  worker returns having sent nothing to the target service and nothing to the
  \<^verbatim>\<open>keys/status\<close> endpoint, and has appended one failed record whose message is built from
  the exception that says no key could be obtained.
\<close>

theorem no_credential_no_network:
  assumes "reads_file kind \<longrightarrow> e_file_ok e"
    and "fst (get_azure_key_with_retry (e_others e) 3 (manager w)) = None"
  shows "fst (worker kind py e w) = None
    \<and> target_posts (snd (worker kind py e w)) = target_posts w
    \<and> status_posts (snd (worker kind py e w)) = status_posts w
    \<and> result_list (snd (worker kind py e w)) = result_list w @
        [\<lparr> r_success = False, r_total_time = e_end_time e - e_start_time e, r_first_chunk = None,
           r_input_size = 0, r_output_size = 0,
           r_error_msg = [24847, 22806, 38169, 35823] @ ascii '': ''
             @ format_exc py (Exception (no_key_msg kind)) @ id_suffix (make_request_id kind e),
           r_request_id = make_request_id kind e, r_text = JStr [] \<rparr>]"
proof -
  from assms(2) obtain m' trace where
    g: "get_azure_key_with_retry (e_others e) 3 (manager w) = (None, m', trace)"
    by (cases "get_azure_key_with_retry (e_others e) 3 (manager w)") auto
  show ?thesis
    by (simp add: worker_eq try_body_no_key [OF assms(1) g] clause_of_def except_handler_def
        initial_locals_def record_result_def)
qed

theorem no_credential_witness:
  "fst (worker AsrShortAudio py0 env_ok world_empty) = None
   \<and> target_posts (snd (worker AsrShortAudio py0 env_ok world_empty)) = []
   \<and> status_posts (snd (worker AsrShortAudio py0 env_ok world_empty)) = []
   \<and> result_list (snd (worker AsrShortAudio py0 env_ok world_empty)) =
        [\<lparr> r_success = False, r_total_time = 0.25, r_first_chunk = None,
           r_input_size = 0, r_output_size = 0,
           r_error_msg = [24847, 22806, 38169, 35823] @ ascii '': Traceback (most recent call last): ''
             @ [26080, 27861, 33719, 21462, 21487, 29992, 30340] @ ascii ''Azure'' @ [23494, 38053]
             @ ascii '' (ID: ASR-Request-0-u)'',
           r_request_id = ascii ''ASR-Request-0-u'', r_text = JStr [] \<rparr>]"
proof -
  have a: "reads_file AsrShortAudio \<longrightarrow> e_file_ok env_ok"
    by (simp add: env_ok_def)
  have b: "fst (get_azure_key_with_retry (e_others env_ok) 3 (manager world_empty)) = None"
    by (simp add: env_ok_def world_empty_def get_azure_key_with_retry_def upt3
        update_key_periodically_def key_manager_init_def)
  from no_credential_no_network [OF a b, of py0]
  show ?thesis
    by (simp add: world_empty_def env_ok_def py0_def make_request_id_def id_suffix_def ascii_def)
qed







end
